theory Spec2Isabelle
  imports Main "HOL-Library.AList"
begin

section \<open>Task Tracker CLI (task_cli.py)\<close>

text \<open>
  The program keeps a list of tasks in the file \<^verbatim>\<open>tasks.json\<close>. One run of the program
  is one command: it loads the list, works on it in memory and writes it back.

  The model follows the Python source function by function.
  \<^item> The values the program handles are what \<^verbatim>\<open>json.load\<close> returns: \<open>None\<close>, booleans,
    integers, strings, lists and dictionaries. Numbers with a fraction are outside the
    model. A dictionary is an association list in insertion order, as a Python
    dictionary is.
  \<^item> Strings are byte strings (text in UTF-8).
  \<^item> The library functions the program calls are the fields of an environment: \<^verbatim>\<open>int\<close> on
    a string (\<open>None\<close> for \<^verbatim>\<open>ValueError\<close>), \<^verbatim>\<open>str\<close> as an f-string applies it,
    \<^verbatim>\<open>str.lower\<close> on a string that is not all ASCII, \<^verbatim>\<open>json.load\<close> and \<^verbatim>\<open>json.dump\<close>.
    The type \<open>'f\<close> is what a file holds.
  \<^item> \<^verbatim>\<open>json.load\<close> returns a value, raises \<^verbatim>\<open>JSONDecodeError\<close>, or raises another
    exception (\<^verbatim>\<open>UnicodeDecodeError\<close> on a file that is not UTF-8, \<^verbatim>\<open>RecursionError\<close> on
    brackets nested too deep).
  \<^item> The clock is an argument: the text of
    \<^verbatim>\<open>datetime.utcnow().replace(microsecond=0).isoformat()\<close> at the time of the run.
  \<^item> An uncaught exception (\<^verbatim>\<open>AttributeError\<close>, \<^verbatim>\<open>TypeError\<close>, \<^verbatim>\<open>KeyError\<close>) ends the run
    with a traceback. A helper that can raise returns an \<open>option\<close>, \<open>None\<close> when it
    raises; a command records it in the field \<open>crashed\<close> of its result.
\<close>

subsection \<open>Values and the environment\<close>

datatype json =
    JNull
  | JBool bool
  | JInt int
  | JStr string
  | JArr "json list"
  | JObj "(string \<times> json) list"

text \<open>The outcomes of \<^verbatim>\<open>json.load\<close>.\<close>

datatype parsed = Parsed json | JSONDecodeError | Other_exception

record 'f env =
  py_int :: "string \<Rightarrow> int option"
  py_str :: "json \<Rightarrow> string"
  py_lower :: "string \<Rightarrow> string"
  json_load :: "'f \<Rightarrow> parsed"
  json_dump :: "json \<Rightarrow> 'f"

text \<open>
  The file system, as far as the program sees it: what \<^verbatim>\<open>tasks.json\<close> holds (\<open>None\<close> when
  the file does not exist) and how often it has been opened for writing.
\<close>

record 'f files =
  tasks_file :: "'f option"
  writes :: nat

text \<open>What one run leaves behind: the files, the lines printed, and whether it crashed.\<close>

record 'f run =
  disk :: "'f files"
  stdout :: "string list"
  crashed :: bool

subsection \<open>Python operations on values\<close>

text \<open>\<^verbatim>\<open>task.get(key, default)\<close>: only a dictionary has the method.\<close>

fun dict_get :: "json \<Rightarrow> string \<Rightarrow> json \<Rightarrow> json option" where
  "dict_get (JObj d) k dflt = Some (case map_of d k of None \<Rightarrow> dflt | Some v \<Rightarrow> v)"
| "dict_get _ k dflt = None"

text \<open>\<^verbatim>\<open>t[key]\<close>: \<^verbatim>\<open>KeyError\<close> on a missing key, \<^verbatim>\<open>TypeError\<close> on what is not a dictionary.\<close>

fun subscript :: "json \<Rightarrow> string \<Rightarrow> json option" where
  "subscript (JObj d) k = map_of d k"
| "subscript _ k = None"

text \<open>
  \<^verbatim>\<open>task[key] = v\<close>: an existing key keeps its place, a new key goes last.
\<close>

fun set_item :: "json \<Rightarrow> string \<Rightarrow> json \<Rightarrow> json option" where
  "set_item (JObj d) k v = Some (JObj (AList.update k v d))"
| "set_item _ k v = None"

text \<open>
  \<^verbatim>\<open>v == n\<close> for an integer \<open>n\<close>: \<^verbatim>\<open>True\<close> is 1 and \<^verbatim>\<open>False\<close> is 0 in Python; a value of
  another type is not equal to an integer.
\<close>

fun py_eq_int :: "json \<Rightarrow> int \<Rightarrow> bool" where
  "py_eq_int (JInt m) n = (m = n)"
| "py_eq_int (JBool b) n = ((if b then 1 else 0) = n)"
| "py_eq_int _ n = False"

text \<open>\<^verbatim>\<open>v == s\<close> for a string \<open>s\<close>.\<close>

fun py_eq_str :: "json \<Rightarrow> string \<Rightarrow> bool" where
  "py_eq_str (JStr t) s = (t = s)"
| "py_eq_str _ s = False"

text \<open>\<^verbatim>\<open>not v\<close>.\<close>

fun py_not :: "json \<Rightarrow> bool" where
  "py_not JNull = True"
| "py_not (JBool b) = (\<not> b)"
| "py_not (JInt n) = (n = 0)"
| "py_not (JStr s) = (s = [])"
| "py_not (JArr xs) = (xs = [])"
| "py_not (JObj d) = (d = [])"

text \<open>
  The numbers among the values. \<^verbatim>\<open>max\<close> compares its items and
  \<^verbatim>\<open>+ 1\<close> follows: a number and a value that is not a number do not compare
  (\<^verbatim>\<open>TypeError\<close>), and a maximum that is not a number cannot be added to 1
  (\<^verbatim>\<open>TypeError\<close>), so \<^verbatim>\<open>max(...) + 1\<close> returns exactly when every item is a number.
\<close>

fun py_num :: "json \<Rightarrow> int option" where
  "py_num (JInt n) = Some n"
| "py_num (JBool b) = Some (if b then 1 else 0)"
| "py_num _ = None"

text \<open>\<^verbatim>\<open>max\<close> of a sequence of numbers; \<^verbatim>\<open>ValueError\<close> on the empty sequence.\<close>

fun py_max :: "int list \<Rightarrow> int option" where
  "py_max [] = None"
| "py_max (n # ns) = Some (fold max ns n)"

text \<open>
  \<^verbatim>\<open>str.lower\<close>. On a string of ASCII characters it maps the capital letters to the
  small ones and leaves the rest. A string with a character outside ASCII is
  lower-cased by the Unicode tables, which the environment holds (the Kelvin sign
  lower-cases to \<open>k\<close>, for one).
\<close>

definition lower_char :: "char \<Rightarrow> char" where
  "lower_char c =
     (case map_of (zip ''ABCDEFGHIJKLMNOPQRSTUVWXYZ'' ''abcdefghijklmnopqrstuvwxyz'') c of
        None \<Rightarrow> c
      | Some l \<Rightarrow> l)"

definition is_ascii :: "char \<Rightarrow> bool" where
  "is_ascii c = (\<not> digit7 c)"

definition lower :: "'f env \<Rightarrow> string \<Rightarrow> string" where
  "lower E s = (if list_all is_ascii s then map lower_char s else py_lower E s)"

text \<open>\<^verbatim>\<open>sep.join(xs)\<close>.\<close>

fun join :: "string \<Rightarrow> string list \<Rightarrow> string" where
  "join sep [] = []"
| "join sep [x] = x"
| "join sep (x # y # ys) = x @ sep @ join sep (y # ys)"

subsection \<open>Storage\<close>

definition VALID_STATUSES :: "string list" where
  "VALID_STATUSES = [''todo'', ''in-progress'', ''done'']"

definition now_iso :: "string \<Rightarrow> string" where
  "now_iso clock = clock @ ''Z''"

text \<open>
  \<open>load_tasks\<close> returns the list and the lines it printed. It catches
  \<^verbatim>\<open>JSONDecodeError\<close> only: any other exception of \<^verbatim>\<open>json.load\<close> leaves it, and
  \<open>load_tasks\<close> is \<open>None\<close>.
\<close>

definition load_tasks :: "'f env \<Rightarrow> 'f files \<Rightarrow> (json list \<times> string list) option" where
  "load_tasks E fs =
     (case tasks_file fs of
        None \<Rightarrow> Some ([], [])
      | Some f \<Rightarrow>
          (case json_load E f of
             Parsed data \<Rightarrow>
               (case data of
                  JArr xs \<Rightarrow> Some (xs, [])
                | _ \<Rightarrow>
                    Some ([], [''Corrupt tasks file: expected a list. Resetting to empty.'']))
           | JSONDecodeError \<Rightarrow>
               Some ([], [''Corrupt JSON in tasks file. Resetting to empty.''])
           | Other_exception \<Rightarrow> None))"

definition save_tasks :: "'f env \<Rightarrow> json list \<Rightarrow> 'f files \<Rightarrow> 'f files" where
  "save_tasks E tasks fs =
     \<lparr>tasks_file = Some (json_dump E (JArr tasks)), writes = Suc (writes fs)\<rparr>"

subsection \<open>The task repository\<close>

definition next_id :: "json list \<Rightarrow> int option" where
  "next_id tasks =
     (if tasks = [] then Some 1
      else
        (case those (map (\<lambda>task. dict_get task ''id'' (JInt 0)) tasks) of
           None \<Rightarrow> None
         | Some ids \<Rightarrow>
             (case those (map py_num ids) of
                None \<Rightarrow> None
              | Some ns \<Rightarrow> map_option (\<lambda>m. m + 1) (py_max ns))))"

text \<open>
  \<open>find_task\<close> returns a reference to the first task whose id equals \<open>task_id\<close>: the
  model returns its position in the list, since \<open>cmd_update\<close> and \<open>cmd_mark\<close> change
  the task in place. \<open>Some None\<close> is Python's \<^verbatim>\<open>None\<close>.
\<close>

fun find_task :: "json list \<Rightarrow> int \<Rightarrow> nat option option" where
  "find_task [] task_id = Some None"
| "find_task (task # tasks) task_id =
     (case dict_get task ''id'' JNull of
        None \<Rightarrow> None
      | Some v \<Rightarrow>
          if py_eq_int v task_id then Some (Some 0)
          else map_option (map_option Suc) (find_task tasks task_id))"

text \<open>The comprehension \<^verbatim>\<open>[t for t in tasks if t.get("id") != tid]\<close> of \<open>cmd_delete\<close>.\<close>

fun without_id :: "json list \<Rightarrow> int \<Rightarrow> json list option" where
  "without_id [] tid = Some []"
| "without_id (t # ts) tid =
     (case dict_get t ''id'' JNull of
        None \<Rightarrow> None
      | Some v \<Rightarrow>
          (case without_id ts tid of
             None \<Rightarrow> None
           | Some r \<Rightarrow> Some (if py_eq_int v tid then r else t # r)))"

text \<open>The comprehension \<^verbatim>\<open>[t for t in tasks if t.get("status") == status_filter]\<close> of \<open>cmd_list\<close>.\<close>

fun with_status :: "json list \<Rightarrow> string \<Rightarrow> json list option" where
  "with_status [] st = Some []"
| "with_status (t # ts) st =
     (case dict_get t ''status'' JNull of
        None \<Rightarrow> None
      | Some v \<Rightarrow>
          (case with_status ts st of
             None \<Rightarrow> None
           | Some r \<Rightarrow> Some (if py_eq_str v st then t # r else r)))"

subsection \<open>Command handlers\<close>

definition cmd_add :: "'f env \<Rightarrow> string \<Rightarrow> string list \<Rightarrow> 'f files \<Rightarrow> 'f run" where
  \<open>cmd_add E clock args fs =
     (case args of
        [] \<Rightarrow> \<lparr>disk = fs, stdout = [''Usage: add "description"''], crashed = False\<rparr>
      | description # _ \<Rightarrow>
          (case load_tasks E fs of
             None \<Rightarrow> \<lparr>disk = fs, stdout = [], crashed = True\<rparr>
           | Some (tasks, warned) \<Rightarrow>
               (case next_id tasks of
                  None \<Rightarrow> \<lparr>disk = fs, stdout = warned, crashed = True\<rparr>
                | Some tid \<Rightarrow>
                    (let ts = now_iso clock;
                         task = JObj [(''id'', JInt tid),
                                      (''description'', JStr description),
                                      (''status'', JStr ''todo''),
                                      (''createdAt'', JStr ts),
                                      (''updatedAt'', JStr ts)]
                     in \<lparr>disk = save_tasks E (tasks @ [task]) fs,
                         stdout = warned @
                           [''Task added successfully (ID: '' @ py_str E (JInt tid) @ '')''],
                         crashed = False\<rparr>))))\<close>

definition cmd_update :: "'f env \<Rightarrow> string \<Rightarrow> string list \<Rightarrow> 'f files \<Rightarrow> 'f run" where
  \<open>cmd_update E clock args fs =
     (case args of
        a0 # new_description # _ \<Rightarrow>
          (case py_int E a0 of
             None \<Rightarrow>
               \<lparr>disk = fs, stdout = [''Invalid id. Id must be an integer.''], crashed = False\<rparr>
           | Some tid \<Rightarrow>
               (case load_tasks E fs of
                  None \<Rightarrow> \<lparr>disk = fs, stdout = [], crashed = True\<rparr>
                | Some (tasks, warned) \<Rightarrow>
                    (case find_task tasks tid of
                       None \<Rightarrow> \<lparr>disk = fs, stdout = warned, crashed = True\<rparr>
                     | Some None \<Rightarrow>
                         \<lparr>disk = fs,
                          stdout = warned @
                            [''Task with ID '' @ py_str E (JInt tid) @ '' not found.''],
                          crashed = False\<rparr>
                     | Some (Some i) \<Rightarrow>
                         if py_not (tasks ! i) then
                           \<lparr>disk = fs,
                            stdout = warned @
                              [''Task with ID '' @ py_str E (JInt tid) @ '' not found.''],
                            crashed = False\<rparr>
                         else
                           (case set_item (tasks ! i) ''description''
                                   (JStr new_description) of
                              None \<Rightarrow> \<lparr>disk = fs, stdout = warned, crashed = True\<rparr>
                            | Some t1 \<Rightarrow>
                                (case set_item t1 ''updatedAt'' (JStr (now_iso clock)) of
                                   None \<Rightarrow> \<lparr>disk = fs, stdout = warned, crashed = True\<rparr>
                                 | Some t2 \<Rightarrow>
                                     \<lparr>disk = save_tasks E (tasks[i := t2]) fs,
                                      stdout = warned @
                                        [''Task '' @ py_str E (JInt tid) @
                                         '' updated successfully.''],
                                      crashed = False\<rparr>)))))
      | _ \<Rightarrow>
          \<lparr>disk = fs, stdout = [''Usage: update <id> "new description"''],
           crashed = False\<rparr>)\<close>

definition cmd_delete :: "'f env \<Rightarrow> string list \<Rightarrow> 'f files \<Rightarrow> 'f run" where
  \<open>cmd_delete E args fs =
     (case args of
        [] \<Rightarrow> \<lparr>disk = fs, stdout = [''Usage: delete <id>''], crashed = False\<rparr>
      | a0 # _ \<Rightarrow>
          (case py_int E a0 of
             None \<Rightarrow>
               \<lparr>disk = fs, stdout = [''Invalid id. Id must be an integer.''], crashed = False\<rparr>
           | Some tid \<Rightarrow>
               (case load_tasks E fs of
                  None \<Rightarrow> \<lparr>disk = fs, stdout = [], crashed = True\<rparr>
                | Some (tasks, warned) \<Rightarrow>
                    (case find_task tasks tid of
                       None \<Rightarrow> \<lparr>disk = fs, stdout = warned, crashed = True\<rparr>
                     | Some None \<Rightarrow>
                         \<lparr>disk = fs,
                          stdout = warned @
                            [''Task with ID '' @ py_str E (JInt tid) @ '' not found.''],
                          crashed = False\<rparr>
                     | Some (Some i) \<Rightarrow>
                         if py_not (tasks ! i) then
                           \<lparr>disk = fs,
                            stdout = warned @
                              [''Task with ID '' @ py_str E (JInt tid) @ '' not found.''],
                            crashed = False\<rparr>
                         else
                           (case without_id tasks tid of
                              None \<Rightarrow> \<lparr>disk = fs, stdout = warned, crashed = True\<rparr>
                            | Some tasks' \<Rightarrow>
                                \<lparr>disk = save_tasks E tasks' fs,
                                 stdout = warned @
                                   [''Task '' @ py_str E (JInt tid) @
                                    '' deleted successfully.''],
                                 crashed = False\<rparr>)))))\<close>

definition cmd_mark ::
  "'f env \<Rightarrow> string \<Rightarrow> string list \<Rightarrow> string \<Rightarrow> 'f files \<Rightarrow> 'f run" where
  \<open>cmd_mark E clock args status fs =
     (case args of
        [] \<Rightarrow>
          \<lparr>disk = fs, stdout = [''Usage: mark-'' @ status @ '' <id>''], crashed = False\<rparr>
      | a0 # _ \<Rightarrow>
          (case py_int E a0 of
             None \<Rightarrow>
               \<lparr>disk = fs, stdout = [''Invalid id. Id must be an integer.''], crashed = False\<rparr>
           | Some tid \<Rightarrow>
               (case load_tasks E fs of
                  None \<Rightarrow> \<lparr>disk = fs, stdout = [], crashed = True\<rparr>
                | Some (tasks, warned) \<Rightarrow>
                    (case find_task tasks tid of
                       None \<Rightarrow> \<lparr>disk = fs, stdout = warned, crashed = True\<rparr>
                     | Some None \<Rightarrow>
                         \<lparr>disk = fs,
                          stdout = warned @
                            [''Task with ID '' @ py_str E (JInt tid) @ '' not found.''],
                          crashed = False\<rparr>
                     | Some (Some i) \<Rightarrow>
                         if py_not (tasks ! i) then
                           \<lparr>disk = fs,
                            stdout = warned @
                              [''Task with ID '' @ py_str E (JInt tid) @ '' not found.''],
                            crashed = False\<rparr>
                         else
                           (case set_item (tasks ! i) ''status'' (JStr status) of
                              None \<Rightarrow> \<lparr>disk = fs, stdout = warned, crashed = True\<rparr>
                            | Some t1 \<Rightarrow>
                                (case set_item t1 ''updatedAt'' (JStr (now_iso clock)) of
                                   None \<Rightarrow> \<lparr>disk = fs, stdout = warned, crashed = True\<rparr>
                                 | Some t2 \<Rightarrow>
                                     \<lparr>disk = save_tasks E (tasks[i := t2]) fs,
                                      stdout = warned @
                                        [''Task '' @ py_str E (JInt tid) @ '' marked as '' @
                                         status @ ''.''],
                                      crashed = False\<rparr>))))))\<close>

text \<open>
  The first part of \<open>cmd_list\<close>: the filter its argument asks for. \<open>None\<close> is the
  invalid filter, \<open>Some None\<close> no filter, \<open>Some (Some s)\<close> the status \<open>s\<close>.
\<close>

definition status_filter :: "'f env \<Rightarrow> string list \<Rightarrow> string option option" where
  "status_filter E args =
     (case args of
        [] \<Rightarrow> Some None
      | a0 # _ \<Rightarrow>
          (let s = lower E a0 in
           if s = ''todo'' then Some (Some ''todo'')
           else if s \<in> set [''in-progress'', ''inprogress'', ''in_progress'']
             then Some (Some ''in-progress'')
           else if s \<in> set [''done'', ''completed''] then Some (Some ''done'')
           else if s = ''all'' then Some None
           else if s \<notin> set VALID_STATUSES then None
           else Some (Some s)))"

text \<open>The local function \<open>fmt\<close> of \<open>cmd_list\<close>.\<close>

definition fmt :: "'f env \<Rightarrow> json \<Rightarrow> string option" where
  "fmt E t =
     (case subscript t ''id'' of None \<Rightarrow> None | Some i \<Rightarrow>
     (case subscript t ''status'' of None \<Rightarrow> None | Some s \<Rightarrow>
     (case subscript t ''description'' of None \<Rightarrow> None | Some d \<Rightarrow>
     (case subscript t ''createdAt'' of None \<Rightarrow> None | Some c \<Rightarrow>
     (case subscript t ''updatedAt'' of None \<Rightarrow> None | Some u \<Rightarrow>
        Some (''['' @ py_str E i @ ''] ('' @ py_str E s @ '') '' @ py_str E d @
              ''  - created: '' @ py_str E c @ '' updated: '' @ py_str E u))))))"

text \<open>
  The loop \<^verbatim>\<open>for t in filtered: print(fmt(t))\<close>: the lines printed, and whether \<open>fmt\<close>
  raised on the way.
\<close>

fun print_tasks :: "'f env \<Rightarrow> json list \<Rightarrow> string list \<times> bool" where
  "print_tasks E [] = ([], False)"
| "print_tasks E (t # ts) =
     (case fmt E t of
        None \<Rightarrow> ([], True)
      | Some line \<Rightarrow> (let (ls, c) = print_tasks E ts in (line # ls, c)))"

definition cmd_list :: "'f env \<Rightarrow> string list \<Rightarrow> 'f files \<Rightarrow> 'f run" where
  "cmd_list E args fs =
     (case status_filter E args of
        None \<Rightarrow>
          \<lparr>disk = fs,
           stdout = [''Invalid status filter. Use: all | todo | in-progress | done''],
           crashed = False\<rparr>
      | Some flt \<Rightarrow>
          (case load_tasks E fs of
             None \<Rightarrow> \<lparr>disk = fs, stdout = [], crashed = True\<rparr>
           | Some (tasks, warned) \<Rightarrow>
               if tasks = [] then
                 \<lparr>disk = fs, stdout = warned @ [''No tasks found.''], crashed = False\<rparr>
               else
                 (case (case flt of None \<Rightarrow> Some tasks | Some st \<Rightarrow> with_status tasks st) of
                    None \<Rightarrow> \<lparr>disk = fs, stdout = warned, crashed = True\<rparr>
                  | Some filtered \<Rightarrow>
                      if filtered = [] then
                        \<lparr>disk = fs, stdout = warned @ [''No tasks match the filter.''],
                         crashed = False\<rparr>
                      else
                        (let (ls, c) = print_tasks E filtered
                         in \<lparr>disk = fs, stdout = warned @ ls, crashed = c\<rparr>))))"

subsection \<open>The dispatcher\<close>

definition print_help :: "string list" where
  \<open>print_help =
     [''Task Tracker CLI'',
      ''Usage:'',
      ''  add "description"'',
      ''  update <id> "new description"'',
      ''  delete <id>'',
      ''  mark-in-progress <id>'',
      ''  mark-done <id>'',
      ''  list [all|todo|in-progress|done]'']\<close>

text \<open>\<open>sys_argv\<close> is \<^verbatim>\<open>sys.argv\<close>: the name of the script first.\<close>

definition main :: "'f env \<Rightarrow> string \<Rightarrow> string list \<Rightarrow> 'f files \<Rightarrow> 'f run" where
  \<open>main E clock sys_argv fs =
     (if length sys_argv < 2 then \<lparr>disk = fs, stdout = print_help, crashed = False\<rparr>
      else
        (let cmd = lower E (sys_argv ! 1);
             args = drop 2 sys_argv
         in
           if cmd = ''add'' then
             (if args = [] then
                \<lparr>disk = fs, stdout = [''Usage: add "description"''], crashed = False\<rparr>
              else cmd_add E clock [join '' '' args] fs)
           else if cmd = ''update'' then
             (if length args < 2 then
                \<lparr>disk = fs, stdout = [''Usage: update <id> "new description"''],
                 crashed = False\<rparr>
              else cmd_update E clock [args ! 0, join '' '' (drop 1 args)] fs)
           else if cmd = ''delete'' then cmd_delete E args fs
           else if cmd = ''mark-in-progress'' then cmd_mark E clock args ''in-progress'' fs
           else if cmd = ''mark-done'' then cmd_mark E clock args ''done'' fs
           else if cmd = ''list'' then cmd_list E args fs
           else if cmd \<in> set [''-h'', ''--help'', ''help''] then
             \<lparr>disk = fs, stdout = print_help, crashed = False\<rparr>
           else
             \<lparr>disk = fs, stdout = (''Unknown command: '' @ cmd) # print_help,
              crashed = False\<rparr>))\<close>

subsection \<open>Tasks\<close>

text \<open>
  What the handlers ask of a value of the list: that it is a dictionary, that its id
  equals a number (\<^verbatim>\<open>t.get("id") == tid\<close>), that its status equals a string
  (\<^verbatim>\<open>t.get("status") == status_filter\<close>).
\<close>

fun is_dict :: "json \<Rightarrow> bool" where
  "is_dict (JObj d) = True"
| "is_dict _ = False"

definition has_id :: "json \<Rightarrow> int \<Rightarrow> bool" where
  "has_id t tid = (case dict_get t ''id'' JNull of None \<Rightarrow> False | Some v \<Rightarrow> py_eq_int v tid)"

definition has_status :: "json \<Rightarrow> string \<Rightarrow> bool" where
  "has_status t st =
     (case dict_get t ''status'' JNull of None \<Rightarrow> False | Some v \<Rightarrow> py_eq_str v st)"

text \<open>The keys \<open>fmt\<close> reads: a task that has them all can be printed.\<close>

definition has_fields :: "json \<Rightarrow> bool" where
  "has_fields t =
     list_all (\<lambda>k. subscript t k \<noteq> None)
       [''id'', ''status'', ''description'', ''createdAt'', ''updatedAt'']"

text \<open>The tasks a filter lets through: all of them without a filter.\<close>

definition matching :: "string option \<Rightarrow> json list \<Rightarrow> json list" where
  "matching flt tasks =
     (case flt of None \<Rightarrow> tasks | Some st \<Rightarrow> filter (\<lambda>t. has_status t st) tasks)"

subsection \<open>Sequences of runs\<close>

text \<open>
  The tasks the file holds, as the next run loads them (none when \<open>load_tasks\<close> raises),
  and their ids where they are integers.
\<close>

definition stored :: "'f env \<Rightarrow> 'f files \<Rightarrow> json list" where
  "stored E fs = (case load_tasks E fs of None \<Rightarrow> [] | Some (tasks, warned) \<Rightarrow> tasks)"

definition id_of :: "json \<Rightarrow> int option" where
  "id_of t = (case subscript t ''id'' of Some (JInt n) \<Rightarrow> Some n | _ \<Rightarrow> None)"

definition ids_of :: "json list \<Rightarrow> int list option" where
  "ids_of tasks = those (map id_of tasks)"


text \<open>
  The id a run assigned: a run that wrote the file and left one task more than it found
  has added the last task.
\<close>

definition added :: "'f env \<Rightarrow> 'f files \<Rightarrow> 'f files \<Rightarrow> int option" where
  "added E fs fs' =
     (if writes fs' \<noteq> writes fs \<and> length (stored E fs') = Suc (length (stored E fs))
      then id_of (last (stored E fs')) else None)"



subsection \<open>An environment to run the model in\<close>

text \<open>
  The theorems hold in every environment. The examples run in this one. A file is the
  document \<^verbatim>\<open>json.load\<close> reads from it, or text that is not JSON, or bytes that are
  not UTF-8. \<open>dec_int\<close> reads a decimal literal with an optional sign, as \<^verbatim>\<open>int\<close>
  does, and \<open>show_json\<close> prints \<open>None\<close>, a boolean, an integer and a string as
  \<^verbatim>\<open>str\<close> does (the examples print no list and no dictionary). The examples
  lower-case ASCII strings only.
\<close>

datatype sample_file = Document json | Not_JSON | Not_UTF8

fun sample_load :: "sample_file \<Rightarrow> parsed" where
  "sample_load (Document v) = Parsed v"
| "sample_load Not_JSON = JSONDecodeError"
| "sample_load Not_UTF8 = Other_exception"

definition digit_of :: "char \<Rightarrow> int option" where
  "digit_of c = map_of (zip ''0123456789'' [0, 1, 2, 3, 4, 5, 6, 7, 8, 9]) c"

fun digits_val :: "int \<Rightarrow> string \<Rightarrow> int option" where
  "digits_val acc [] = Some acc"
| "digits_val acc (c # cs) =
     (case digit_of c of None \<Rightarrow> None | Some d \<Rightarrow> digits_val (10 * acc + d) cs)"

definition dec_int :: "string \<Rightarrow> int option" where
  "dec_int s =
     (case s of
        [] \<Rightarrow> None
      | c # cs \<Rightarrow>
          if c = CHR ''-'' then (if cs = [] then None else map_option uminus (digits_val 0 cs))
          else if c = CHR ''+'' then (if cs = [] then None else digits_val 0 cs)
          else digits_val 0 s)"

fun show_nat :: "nat \<Rightarrow> string" where
  "show_nat n =
     (if n < 10 then [''0123456789'' ! n]
      else show_nat (n div 10) @ [''0123456789'' ! (n mod 10)])"

declare show_nat.simps [simp del]

fun show_json :: "json \<Rightarrow> string" where
  "show_json JNull = ''None''"
| "show_json (JBool b) = (if b then ''True'' else ''False'')"
| "show_json (JInt n) = (if n < 0 then ''-'' @ show_nat (nat (- n)) else show_nat (nat n))"
| "show_json (JStr s) = s"
| "show_json (JArr xs) = ''[...]''"
| "show_json (JObj d) = ''{...}''"

definition sample_env :: "sample_file env" where
  "sample_env =
     \<lparr>py_int = dec_int, py_str = show_json, py_lower = map lower_char,
      json_load = sample_load, json_dump = Document\<rparr>"

definition no_file :: "sample_file files" where
  "no_file = \<lparr>tasks_file = None, writes = 0\<rparr>"

section \<open>Properties\<close>

subsection \<open>Running the model\<close>

text \<open>The definitions an example unfolds to run.\<close>

lemmas lower_eval = lower_def lower_char_def is_ascii_def

lemmas sample_eval = sample_env_def no_file_def dec_int_def digit_of_def

lemmas run_eval = main_def cmd_add_def cmd_update_def cmd_delete_def cmd_mark_def
  cmd_list_def status_filter_def VALID_STATUSES_def load_tasks_def save_tasks_def
  next_id_def now_iso_def fmt_def Let_def

subsection \<open>The dispatcher and the filter\<close>

lemma main_dispatch:
  \<open>main E clock (prog # verb # args) fs =
     (let cmd = lower E verb in
      if cmd = ''add'' then
        (if args = [] then
           \<lparr>disk = fs, stdout = [''Usage: add "description"''], crashed = False\<rparr>
         else cmd_add E clock [join '' '' args] fs)
      else if cmd = ''update'' then
        (if length args < 2 then
           \<lparr>disk = fs, stdout = [''Usage: update <id> "new description"''],
            crashed = False\<rparr>
         else cmd_update E clock [args ! 0, join '' '' (drop 1 args)] fs)
      else if cmd = ''delete'' then cmd_delete E args fs
      else if cmd = ''mark-in-progress'' then cmd_mark E clock args ''in-progress'' fs
      else if cmd = ''mark-done'' then cmd_mark E clock args ''done'' fs
      else if cmd = ''list'' then cmd_list E args fs
      else if cmd \<in> set [''-h'', ''--help'', ''help''] then
        \<lparr>disk = fs, stdout = print_help, crashed = False\<rparr>
      else
        \<lparr>disk = fs, stdout = (''Unknown command: '' @ cmd) # print_help,
         crashed = False\<rparr>)\<close>
  by (simp add: main_def Let_def)

lemma status_filter_invalid:
  "lower E a \<notin> set [''all'', ''todo'', ''in-progress'', ''inprogress'', ''in_progress'',
                   ''done'', ''completed''] \<Longrightarrow>
   status_filter E (a # rest) = None"
  by (simp add: status_filter_def VALID_STATUSES_def Let_def)

lemma cmd_list_invalid:
  "status_filter E args = None \<Longrightarrow>
   cmd_list E args fs =
     \<lparr>disk = fs,
      stdout = [''Invalid status filter. Use: all | todo | in-progress | done''],
      crashed = False\<rparr>"
  by (simp add: cmd_list_def)

subsection \<open>Lists of optional values, and the ids of a collection\<close>

lemma those_eq_Some_length: "those xs = Some ys \<Longrightarrow> length ys = length xs"
  by (induction xs arbitrary: ys) (auto split: option.splits)

lemma id_of_SomeD: "id_of t = Some n \<Longrightarrow> \<exists>d. t = JObj d \<and> map_of d ''id'' = Some (JInt n)"
  by (cases t) (auto simp: id_of_def split: option.splits json.splits)

lemma ids_of_Cons:
  "ids_of (t # ts) = Some ids \<longleftrightarrow>
     (\<exists>n ns. ids = n # ns \<and> id_of t = Some n \<and> ids_of ts = Some ns)"
  by (auto simp: ids_of_def split: option.splits)

lemma ids_of_get:
  "ids_of tasks = Some ids \<Longrightarrow>
     those (map (\<lambda>task. dict_get task ''id'' dflt) tasks) = Some (map JInt ids)"
proof (induction tasks arbitrary: ids)
  case Nil
  then show ?case by (simp add: ids_of_def)
next
  case (Cons t ts)
  then obtain n ns where ids: "ids = n # ns" and t: "id_of t = Some n"
    and ts: "ids_of ts = Some ns"
    by (auto simp: ids_of_Cons)
  from t obtain d where "t = JObj d" "map_of d ''id'' = Some (JInt n)"
    by (auto dest: id_of_SomeD)
  with Cons.IH [OF ts] ids show ?case by simp
qed

lemma those_py_num: "those (map py_num (map JInt ns)) = Some ns"
  by (induction ns) simp_all

lemma fold_max_Max: "fold max ns (n :: int) = Max (set (n # ns))"
  using Max.set_eq_fold [of n ns] by simp

lemma next_id_ids:
  assumes "ids_of tasks = Some ids" and "tasks \<noteq> []"
  shows "next_id tasks = Some (Max (set ids) + 1)"
proof -
  from assms obtain n ns where ids: "ids = n # ns"
    by (cases tasks) (auto simp: ids_of_Cons)
  have "those (map (\<lambda>task. dict_get task ''id'' (JInt 0)) tasks) = Some (map JInt ids)"
    by (rule ids_of_get [OF assms(1)])
  moreover have "those (map py_num (map JInt ids)) = Some ids"
    by (rule those_py_num)
  moreover have "py_max ids = Some (Max (set ids))"
    unfolding ids py_max.simps fold_max_Max ..
  ultimately show ?thesis
    using assms(2) by (simp add: next_id_def)
qed

subsection \<open>The next id\<close>

text \<open>
  Claim C8. \<open>next_id\<close> returns 1 for the empty collection. For a collection that is not
  empty, of tasks that each have an integer id, it returns the maximum of the ids
  plus 1.
\<close>

theorem next_id_spec:
  "next_id [] = Some 1 \<and>
   (tasks \<noteq> [] \<longrightarrow> ids_of tasks = Some ids \<longrightarrow> next_id tasks = Some (Max (set ids) + 1))"
  by (simp add: next_id_ids) (simp add: next_id_def)

theorem next_id_spec_witness:
  "[JObj [(''id'', JInt 3), (''status'', JStr ''done'')], JObj [(''id'', JInt 7)],
    JObj [(''description'', JStr ''x''), (''id'', JInt 5)]] \<noteq> [] \<and>
   ids_of [JObj [(''id'', JInt 3), (''status'', JStr ''done'')], JObj [(''id'', JInt 7)],
     JObj [(''description'', JStr ''x''), (''id'', JInt 5)]] = Some [3, 7, 5] \<and>
   next_id [JObj [(''id'', JInt 3), (''status'', JStr ''done'')], JObj [(''id'', JInt 7)],
     JObj [(''description'', JStr ''x''), (''id'', JInt 5)]] = Some 8"
  using next_id_spec
    [of "[JObj [(''id'', JInt 3), (''status'', JStr ''done'')], JObj [(''id'', JInt 7)],
          JObj [(''description'', JStr ''x''), (''id'', JInt 5)]]" "[3, 7, 5]"]
  by (simp add: ids_of_def id_of_def)

subsection \<open>Loading\<close>

lemma load_tasks_cases:
  "tasks_file fs = None \<Longrightarrow> load_tasks E fs = Some ([], [])"
  "tasks_file fs = Some f \<Longrightarrow> json_load E f = Parsed (JArr xs) \<Longrightarrow>
     load_tasks E fs = Some (xs, [])"
  "tasks_file fs = Some f \<Longrightarrow> json_load E f = Parsed v \<Longrightarrow> \<forall>xs. v \<noteq> JArr xs \<Longrightarrow>
     load_tasks E fs =
       Some ([], [''Corrupt tasks file: expected a list. Resetting to empty.''])"
  "tasks_file fs = Some f \<Longrightarrow> json_load E f = JSONDecodeError \<Longrightarrow>
     load_tasks E fs = Some ([], [''Corrupt JSON in tasks file. Resetting to empty.''])"
  "tasks_file fs = Some f \<Longrightarrow> json_load E f = Other_exception \<Longrightarrow> load_tasks E fs = None"
  by (cases v; simp add: load_tasks_def)+

text \<open>
  Claim C4 fails on the code. \<open>load_tasks\<close> recovers from \<^verbatim>\<open>JSONDecodeError\<close> and from a
  value that is not a list, and from nothing else. On a file that is not UTF-8,
  \<^verbatim>\<open>json.load\<close> raises \<^verbatim>\<open>UnicodeDecodeError\<close>: \<open>load_tasks\<close> raises too, and the list
  command ends with a traceback where the claim has it print a message and go on with
  the empty list, as it does on a file that is not JSON.
\<close>

theorem load_tasks_raises:
  "json_load sample_env Not_UTF8 = Other_exception \<and>
   load_tasks sample_env \<lparr>tasks_file = Some Not_UTF8, writes = 0\<rparr> = None \<and>
   main sample_env ''2024-01-01T00:00:00'' [''task_cli.py'', ''list'']
     \<lparr>tasks_file = Some Not_UTF8, writes = 0\<rparr> =
     \<lparr>disk = \<lparr>tasks_file = Some Not_UTF8, writes = 0\<rparr>, stdout = [], crashed = True\<rparr> \<and>
   load_tasks sample_env \<lparr>tasks_file = Some Not_JSON, writes = 0\<rparr> =
     Some ([], [''Corrupt JSON in tasks file. Resetting to empty.'']) \<and>
   main sample_env ''2024-01-01T00:00:00'' [''task_cli.py'', ''list'']
     \<lparr>tasks_file = Some Not_JSON, writes = 0\<rparr> =
     \<lparr>disk = \<lparr>tasks_file = Some Not_JSON, writes = 0\<rparr>,
      stdout = [''Corrupt JSON in tasks file. Resetting to empty.'', ''No tasks found.''],
      crashed = False\<rparr>"
  by (simp add: run_eval lower_eval sample_env_def)

subsection \<open>Invalid input\<close>

lemma cmd_update_invalid_id:
  "py_int E a = None \<Longrightarrow>
   cmd_update E clock (a # d # ds) fs =
     \<lparr>disk = fs, stdout = [''Invalid id. Id must be an integer.''], crashed = False\<rparr>"
  by (simp add: cmd_update_def)

lemma cmd_delete_invalid_id:
  "py_int E a = None \<Longrightarrow>
   cmd_delete E (a # rest) fs =
     \<lparr>disk = fs, stdout = [''Invalid id. Id must be an integer.''], crashed = False\<rparr>"
  by (simp add: cmd_delete_def)

lemma cmd_mark_invalid_id:
  "py_int E a = None \<Longrightarrow>
   cmd_mark E clock (a # rest) status fs =
     \<lparr>disk = fs, stdout = [''Invalid id. Id must be an integer.''], crashed = False\<rparr>"
  by (simp add: cmd_mark_def)

text \<open>
  Claim C3. On invalid input the run prints one usage or error message (for an unknown
  verb, the message and the help), does not crash, and leaves the files as they were:
  the file holds what it held and has not been opened for writing. Invalid input is: an
  id that \<^verbatim>\<open>int\<close> rejects, given to update, delete, mark-in-progress or mark-done; a
  missing argument of add, update, delete, mark-in-progress or mark-done; a filter of
  list that in lower case is none of the seven names; a verb that in lower case is none
  of the nine names. Lower case is what \<^verbatim>\<open>str.lower\<close> returns, for every string.
\<close>

theorem invalid_input_no_mutation:
  \<open>(lower E verb = ''update'' \<and> py_int E a = None \<longrightarrow>
      main E clock (prog # verb # a # d # ds) fs =
        \<lparr>disk = fs, stdout = [''Invalid id. Id must be an integer.''], crashed = False\<rparr>) \<and>
   (lower E verb \<in> set [''delete'', ''mark-in-progress'', ''mark-done''] \<and> py_int E a = None \<longrightarrow>
      main E clock (prog # verb # a # rest) fs =
        \<lparr>disk = fs, stdout = [''Invalid id. Id must be an integer.''], crashed = False\<rparr>) \<and>
   (lower E verb = ''add'' \<longrightarrow>
      main E clock [prog, verb] fs =
        \<lparr>disk = fs, stdout = [''Usage: add "description"''], crashed = False\<rparr>) \<and>
   (lower E verb = ''update'' \<and> length args < 2 \<longrightarrow>
      main E clock (prog # verb # args) fs =
        \<lparr>disk = fs, stdout = [''Usage: update <id> "new description"''], crashed = False\<rparr>) \<and>
   (lower E verb = ''delete'' \<longrightarrow>
      main E clock [prog, verb] fs =
        \<lparr>disk = fs, stdout = [''Usage: delete <id>''], crashed = False\<rparr>) \<and>
   (lower E verb = ''mark-in-progress'' \<longrightarrow>
      main E clock [prog, verb] fs =
        \<lparr>disk = fs, stdout = [''Usage: mark-in-progress <id>''], crashed = False\<rparr>) \<and>
   (lower E verb = ''mark-done'' \<longrightarrow>
      main E clock [prog, verb] fs =
        \<lparr>disk = fs, stdout = [''Usage: mark-done <id>''], crashed = False\<rparr>) \<and>
   (lower E verb = ''list'' \<and>
    lower E a \<notin> set [''all'', ''todo'', ''in-progress'', ''inprogress'', ''in_progress'',
                    ''done'', ''completed''] \<longrightarrow>
      main E clock (prog # verb # a # rest) fs =
        \<lparr>disk = fs,
         stdout = [''Invalid status filter. Use: all | todo | in-progress | done''],
         crashed = False\<rparr>) \<and>
   (lower E verb \<notin> set [''add'', ''update'', ''delete'', ''mark-in-progress'', ''mark-done'',
                       ''list'', ''-h'', ''--help'', ''help''] \<longrightarrow>
      main E clock (prog # verb # args) fs =
        \<lparr>disk = fs, stdout = (''Unknown command: '' @ lower E verb) # print_help,
         crashed = False\<rparr>)\<close>
proof -
  have upd: "lower E verb = ''update'' \<Longrightarrow> py_int E a = None \<Longrightarrow>
      main E clock (prog # verb # a # d # ds) fs =
        \<lparr>disk = fs, stdout = [''Invalid id. Id must be an integer.''], crashed = False\<rparr>"
    by (simp add: main_dispatch cmd_update_invalid_id)
  have del: "lower E verb \<in> set [''delete'', ''mark-in-progress'', ''mark-done''] \<Longrightarrow>
      py_int E a = None \<Longrightarrow>
      main E clock (prog # verb # a # rest) fs =
        \<lparr>disk = fs, stdout = [''Invalid id. Id must be an integer.''], crashed = False\<rparr>"
    by (auto simp: main_dispatch cmd_delete_invalid_id cmd_mark_invalid_id)
  have missing: \<open>lower E verb = ''add'' \<Longrightarrow>
      main E clock [prog, verb] fs =
        \<lparr>disk = fs, stdout = [''Usage: add "description"''], crashed = False\<rparr>\<close>
    \<open>lower E verb = ''update'' \<Longrightarrow> length args < 2 \<Longrightarrow>
      main E clock (prog # verb # args) fs =
        \<lparr>disk = fs, stdout = [''Usage: update <id> "new description"''], crashed = False\<rparr>\<close>
    \<open>lower E verb = ''delete'' \<Longrightarrow>
      main E clock [prog, verb] fs =
        \<lparr>disk = fs, stdout = [''Usage: delete <id>''], crashed = False\<rparr>\<close>
    \<open>lower E verb = ''mark-in-progress'' \<Longrightarrow>
      main E clock [prog, verb] fs =
        \<lparr>disk = fs, stdout = [''Usage: mark-in-progress <id>''], crashed = False\<rparr>\<close>
    \<open>lower E verb = ''mark-done'' \<Longrightarrow>
      main E clock [prog, verb] fs =
        \<lparr>disk = fs, stdout = [''Usage: mark-done <id>''], crashed = False\<rparr>\<close>
    by (simp_all add: main_dispatch cmd_delete_def cmd_mark_def)
  have flt: "lower E verb = ''list'' \<Longrightarrow>
    lower E a \<notin> set [''all'', ''todo'', ''in-progress'', ''inprogress'', ''in_progress'',
                    ''done'', ''completed''] \<Longrightarrow>
      main E clock (prog # verb # a # rest) fs =
        \<lparr>disk = fs,
         stdout = [''Invalid status filter. Use: all | todo | in-progress | done''],
         crashed = False\<rparr>"
    using cmd_list_invalid [OF status_filter_invalid] by (simp add: main_dispatch)
  have unknown: "lower E verb \<notin> set [''add'', ''update'', ''delete'', ''mark-in-progress'',
       ''mark-done'', ''list'', ''-h'', ''--help'', ''help''] \<Longrightarrow>
      main E clock (prog # verb # args) fs =
        \<lparr>disk = fs, stdout = (''Unknown command: '' @ lower E verb) # print_help,
         crashed = False\<rparr>"
    by (simp add: main_dispatch)
  from upd del missing flt unknown show ?thesis by blast
qed

theorem invalid_input_no_mutation_witness:
  \<open>(lower sample_env ''UPDATE'' = ''update'' \<and> py_int sample_env ''abc'' = None \<and>
    main sample_env ''2024-01-01T00:00:00''
      [''task_cli.py'', ''UPDATE'', ''abc'', ''new'', ''text''] no_file =
      \<lparr>disk = no_file, stdout = [''Invalid id. Id must be an integer.''],
       crashed = False\<rparr>) \<and>
   (lower sample_env ''mark-done'' \<in> set [''delete'', ''mark-in-progress'', ''mark-done''] \<and>
    py_int sample_env ''1.5'' = None \<and>
    main sample_env ''2024-01-01T00:00:00'' [''task_cli.py'', ''mark-done'', ''1.5''] no_file =
      \<lparr>disk = no_file, stdout = [''Invalid id. Id must be an integer.''],
       crashed = False\<rparr>) \<and>
   (lower sample_env ''Add'' = ''add'' \<and>
    main sample_env ''2024-01-01T00:00:00'' [''task_cli.py'', ''Add''] no_file =
      \<lparr>disk = no_file, stdout = [''Usage: add "description"''], crashed = False\<rparr>) \<and>
   (lower sample_env ''update'' = ''update'' \<and> length [''7''] < 2 \<and>
    main sample_env ''2024-01-01T00:00:00'' [''task_cli.py'', ''update'', ''7''] no_file =
      \<lparr>disk = no_file, stdout = [''Usage: update <id> "new description"''],
       crashed = False\<rparr>) \<and>
   (lower sample_env ''list'' = ''list'' \<and>
    lower sample_env ''finished'' \<notin> set [''all'', ''todo'', ''in-progress'', ''inprogress'',
                              ''in_progress'', ''done'', ''completed''] \<and>
    main sample_env ''2024-01-01T00:00:00'' [''task_cli.py'', ''list'', ''finished''] no_file =
      \<lparr>disk = no_file,
       stdout = [''Invalid status filter. Use: all | todo | in-progress | done''],
       crashed = False\<rparr>) \<and>
   (lower sample_env ''Remove'' \<notin> set [''add'', ''update'', ''delete'', ''mark-in-progress'',
                            ''mark-done'', ''list'', ''-h'', ''--help'', ''help''] \<and>
    main sample_env ''2024-01-01T00:00:00'' [''task_cli.py'', ''Remove'', ''1''] no_file =
      \<lparr>disk = no_file, stdout = (''Unknown command: '' @ lower sample_env ''Remove'') # print_help,
       crashed = False\<rparr>)\<close>
proof -
  have upd: "lower sample_env ''UPDATE'' = ''update''"
    and md: "lower sample_env ''mark-done'' = ''mark-done''"
    and ad: "lower sample_env ''Add'' = ''add''"
    and up: "lower sample_env ''update'' = ''update''"
    and li: "lower sample_env ''list'' = ''list''"
    and fi: "lower sample_env ''finished'' = ''finished''"
    and re: "lower sample_env ''Remove'' = ''remove''"
    by (simp_all add: lower_eval)
  have abc: "py_int sample_env ''abc'' = None" and frac: "py_int sample_env ''1.5'' = None"
    by (simp_all add: sample_eval)
  note inst = invalid_input_no_mutation
    [where E = sample_env and fs = no_file and clock = "''2024-01-01T00:00:00''"
       and prog = "''task_cli.py''"]
  show ?thesis
    using inst [where verb = "''UPDATE''" and a = "''abc''" and d = "''new''" and ds = "[''text'']"]
      inst [where verb = "''mark-done''" and a = "''1.5''" and rest = "[]"]
      inst [where verb = "''Add''"]
      inst [where verb = "''update''" and args = "[''7'']"]
      inst [where verb = "''list''" and a = "''finished''" and rest = "[]"]
      inst [where verb = "''Remove''" and args = "[''1'']"]
    unfolding upd md ad up li fi re abc frac
    by simp
qed

subsection \<open>Adding a task\<close>

lemma cmd_add_stores:
  assumes "load_tasks E fs = Some (tasks, warned)" and "next_id tasks = Some tid"
  shows "cmd_add E clock (description # rest) fs =
     \<lparr>disk = save_tasks E
        (tasks @ [JObj [(''id'', JInt tid), (''description'', JStr description),
                        (''status'', JStr ''todo''), (''createdAt'', JStr (now_iso clock)),
                        (''updatedAt'', JStr (now_iso clock))]]) fs,
      stdout = warned @ [''Task added successfully (ID: '' @ py_str E (JInt tid) @ '')''],
      crashed = False\<rparr>"
  using assms by (simp add: cmd_add_def Let_def)

text \<open>
  Claim C2, amended. The add command invoked without a description argument prints the
  usage message and changes nothing. A description that is given is used as it is, the
  empty string too: when \<open>next_id\<close> returns, the run appends a task with that
  description and saves the list.
\<close>

theorem add_without_description:
  \<open>(lower E verb = ''add'' \<longrightarrow>
      main E clock [prog, verb] fs =
        \<lparr>disk = fs, stdout = [''Usage: add "description"''], crashed = False\<rparr>) \<and>
   cmd_add E clock [] fs =
     \<lparr>disk = fs, stdout = [''Usage: add "description"''], crashed = False\<rparr> \<and>
   (lower E verb = ''add'' \<and> load_tasks E fs = Some (tasks, warned) \<and> next_id tasks = Some tid \<longrightarrow>
      main E clock (prog # verb # w # ws) fs =
        \<lparr>disk = save_tasks E
           (tasks @ [JObj [(''id'', JInt tid), (''description'', JStr (join '' '' (w # ws))),
                           (''status'', JStr ''todo''), (''createdAt'', JStr (now_iso clock)),
                           (''updatedAt'', JStr (now_iso clock))]]) fs,
         stdout = warned @ [''Task added successfully (ID: '' @ py_str E (JInt tid) @ '')''],
         crashed = False\<rparr>)\<close>
proof -
  have \<open>lower E verb = ''add'' \<Longrightarrow>
      main E clock [prog, verb] fs =
        \<lparr>disk = fs, stdout = [''Usage: add "description"''], crashed = False\<rparr>\<close>
    by (simp add: main_dispatch)
  moreover have \<open>cmd_add E clock [] fs =
     \<lparr>disk = fs, stdout = [''Usage: add "description"''], crashed = False\<rparr>\<close>
    by (simp add: cmd_add_def)
  moreover have "lower E verb = ''add'' \<Longrightarrow> load_tasks E fs = Some (tasks, warned) \<Longrightarrow>
      next_id tasks = Some tid \<Longrightarrow>
      main E clock (prog # verb # w # ws) fs =
        \<lparr>disk = save_tasks E
           (tasks @ [JObj [(''id'', JInt tid), (''description'', JStr (join '' '' (w # ws))),
                           (''status'', JStr ''todo''), (''createdAt'', JStr (now_iso clock)),
                           (''updatedAt'', JStr (now_iso clock))]]) fs,
         stdout = warned @ [''Task added successfully (ID: '' @ py_str E (JInt tid) @ '')''],
         crashed = False\<rparr>"
    by (simp add: main_dispatch cmd_add_stores)
  ultimately show ?thesis by blast
qed

text \<open>
  Claim C2 as stated fails: with the empty string as description the run prints no
  usage message and writes a file with a new task.
\<close>

theorem add_empty_description_counterexample:
  "main sample_env ''2024-01-01T00:00:00'' [''task_cli.py'', ''add'', ''''] no_file =
     \<lparr>disk =
        \<lparr>tasks_file =
           Some (Document (JArr [JObj [(''id'', JInt 1), (''description'', JStr ''''),
                                   (''status'', JStr ''todo''),
                                   (''createdAt'', JStr ''2024-01-01T00:00:00Z''),
                                   (''updatedAt'', JStr ''2024-01-01T00:00:00Z'')]])),
         writes = 1\<rparr>,
      stdout = [''Task added successfully (ID: 1)''], crashed = False\<rparr>"
  by (simp add: run_eval lower_eval sample_eval show_nat.simps)

theorem add_without_description_witness:
  \<open>lower sample_env ''ADD'' = ''add'' \<and>
   main sample_env ''2024-01-01T00:00:00'' [''task_cli.py'', ''ADD''] no_file =
     \<lparr>disk = no_file, stdout = [''Usage: add "description"''], crashed = False\<rparr> \<and>
   load_tasks sample_env no_file = Some ([], []) \<and> next_id [] = Some 1 \<and>
   main sample_env ''2024-01-01T00:00:00'' [''task_cli.py'', ''ADD'', ''Buy'', ''milk''] no_file =
     \<lparr>disk = save_tasks sample_env
        [JObj [(''id'', JInt 1), (''description'', JStr ''Buy milk''),
               (''status'', JStr ''todo''), (''createdAt'', JStr ''2024-01-01T00:00:00Z''),
               (''updatedAt'', JStr ''2024-01-01T00:00:00Z'')]] no_file,
      stdout = [''Task added successfully (ID: 1)''], crashed = False\<rparr>\<close>
proof -
  have l: "lower sample_env ''ADD'' = ''add''"
    by (simp add: lower_eval)
  have ld: "load_tasks sample_env no_file = Some ([], [])"
    by (simp add: load_tasks_def no_file_def)
  have n: "next_id [] = Some 1"
    by (simp add: next_id_def)
  show ?thesis
    using add_without_description
      [where verb = "''ADD''" and E = sample_env and fs = no_file and tasks = "[]"
         and warned = "[]" and tid = 1 and clock = "''2024-01-01T00:00:00''"
         and prog = "''task_cli.py''" and w = "''Buy''" and ws = "[''milk'']"]
    unfolding l ld n
    by (simp add: now_iso_def sample_env_def show_nat.simps)
qed

subsection \<open>The filter of the list command\<close>





subsection \<open>Finding, deleting and updating a task\<close>

lemma has_id_dict: "has_id t tid \<Longrightarrow> is_dict t \<and> \<not> py_not t"
  by (cases t) (auto simp: has_id_def split: option.splits)

lemma find_task_Some:
  "find_task tasks tid = Some (Some i) \<Longrightarrow>
     i < length tasks \<and> has_id (tasks ! i) tid \<and> (\<forall>j<i. \<not> has_id (tasks ! j) tid)"
proof (induction tasks arbitrary: i)
  case Nil
  then show ?case by simp
next
  case (Cons t ts)
  show ?case
  proof (cases "has_id t tid")
    case True
    with Cons.prems have "i = 0"
      by (auto simp: has_id_def split: option.splits)
    with True show ?thesis by simp
  next
    case False
    with Cons.prems obtain i' where i: "i = Suc i'" and f: "find_task ts tid = Some (Some i')"
      by (auto simp: has_id_def split: option.splits if_splits)
    from Cons.IH [OF f] False i show ?thesis
      by (auto simp: less_Suc_eq_0_disj)
  qed
qed

lemma find_task_None: "find_task tasks tid = Some None \<Longrightarrow> \<forall>t\<in>set tasks. \<not> has_id t tid"
  by (induction tasks) (auto simp: has_id_def split: option.splits if_splits)

lemma find_task_dicts: "list_all is_dict tasks \<Longrightarrow> \<exists>r. find_task tasks tid = Some r"
proof (induction tasks)
  case Nil
  then show ?case by simp
next
  case (Cons t ts)
  then obtain d where "t = JObj d" by (cases t) simp_all
  with Cons show ?case by auto
qed

lemma find_task_found:
  assumes "list_all is_dict tasks" and "\<exists>t\<in>set tasks. has_id t tid"
  shows "\<exists>i. find_task tasks tid = Some (Some i)"
proof -
  from find_task_dicts [OF assms(1)] obtain r where r: "find_task tasks tid = Some r"
    by blast
  show ?thesis
  proof (cases r)
    case None
    with r find_task_None assms(2) show ?thesis by blast
  next
    case (Some i)
    with r show ?thesis by simp
  qed
qed

lemma without_id_filter:
  "list_all is_dict tasks \<Longrightarrow>
     without_id tasks tid = Some (filter (\<lambda>t. \<not> has_id t tid) tasks)"
proof (induction tasks)
  case Nil
  then show ?case by simp
next
  case (Cons t ts)
  then obtain d where "t = JObj d" by (cases t) simp_all
  with Cons show ?case by (simp add: has_id_def)
qed

lemma with_status_filter:
  "list_all is_dict tasks \<Longrightarrow>
     with_status tasks st = Some (filter (\<lambda>t. has_status t st) tasks)"
proof (induction tasks)
  case Nil
  then show ?case by simp
next
  case (Cons t ts)
  then obtain d where "t = JObj d" by (cases t) simp_all
  with Cons show ?case by (simp add: has_status_def)
qed

text \<open>
  Claim C10. When the list holds dictionaries and one of them has the given integer id,
  the delete command saves the list without every task that has the id: the result
  is the list filtered, so no task of it has the id, and the tasks with another id are
  all there, unchanged and in their order.
\<close>

theorem delete_removes_id:
  assumes "load_tasks E fs = Some (tasks, warned)"
    and "py_int E a = Some tid"
    and "list_all is_dict tasks"
    and "\<exists>t\<in>set tasks. has_id t tid"
  shows "cmd_delete E (a # rest) fs =
     \<lparr>disk = save_tasks E (filter (\<lambda>t. \<not> has_id t tid) tasks) fs,
      stdout = warned @ [''Task '' @ py_str E (JInt tid) @ '' deleted successfully.''],
      crashed = False\<rparr>"
proof -
  from find_task_found [OF assms(3,4)] obtain i where i: "find_task tasks tid = Some (Some i)"
    by blast
  from find_task_Some [OF i] have "\<not> py_not (tasks ! i)"
    using has_id_dict by blast
  with assms(1,2) i without_id_filter [OF assms(3), of tid] show ?thesis
    by (simp add: cmd_delete_def)
qed

theorem delete_removes_id_witness:
  "load_tasks sample_env
     \<lparr>tasks_file =
        Some (Document (JArr [JObj [(''id'', JInt 1), (''description'', JStr ''a'')],
                          JObj [(''id'', JInt 2), (''description'', JStr ''b'')],
                          JObj [(''id'', JInt 1), (''description'', JStr ''c'')]])),
      writes = 0\<rparr> =
     Some ([JObj [(''id'', JInt 1), (''description'', JStr ''a'')],
       JObj [(''id'', JInt 2), (''description'', JStr ''b'')],
       JObj [(''id'', JInt 1), (''description'', JStr ''c'')]], []) \<and>
   py_int sample_env ''1'' = Some 1 \<and>
   list_all is_dict
     [JObj [(''id'', JInt 1), (''description'', JStr ''a'')],
      JObj [(''id'', JInt 2), (''description'', JStr ''b'')],
      JObj [(''id'', JInt 1), (''description'', JStr ''c'')]] \<and>
   has_id (JObj [(''id'', JInt 1), (''description'', JStr ''a'')]) 1 \<and>
   cmd_delete sample_env [''1'']
     \<lparr>tasks_file =
        Some (Document (JArr [JObj [(''id'', JInt 1), (''description'', JStr ''a'')],
                          JObj [(''id'', JInt 2), (''description'', JStr ''b'')],
                          JObj [(''id'', JInt 1), (''description'', JStr ''c'')]])),
      writes = 0\<rparr> =
     \<lparr>disk =
        \<lparr>tasks_file = Some (Document (JArr [JObj [(''id'', JInt 2), (''description'', JStr ''b'')]])),
         writes = 1\<rparr>,
      stdout = [''Task 1 deleted successfully.''], crashed = False\<rparr>"
proof -
  have ld: "load_tasks sample_env
     \<lparr>tasks_file =
        Some (Document (JArr [JObj [(''id'', JInt 1), (''description'', JStr ''a'')],
                          JObj [(''id'', JInt 2), (''description'', JStr ''b'')],
                          JObj [(''id'', JInt 1), (''description'', JStr ''c'')]])),
      writes = 0\<rparr> =
     Some ([JObj [(''id'', JInt 1), (''description'', JStr ''a'')],
       JObj [(''id'', JInt 2), (''description'', JStr ''b'')],
       JObj [(''id'', JInt 1), (''description'', JStr ''c'')]], [])"
    by (simp add: load_tasks_def sample_env_def)
  have int: "py_int sample_env ''1'' = Some 1"
    by (simp add: sample_eval)
  have dicts: "list_all is_dict
     [JObj [(''id'', JInt 1), (''description'', JStr ''a'')],
      JObj [(''id'', JInt 2), (''description'', JStr ''b'')],
      JObj [(''id'', JInt 1), (''description'', JStr ''c'')]]"
    by simp
  have has: "has_id (JObj [(''id'', JInt 1), (''description'', JStr ''a'')]) 1"
    by (simp add: has_id_def)
  from has have ex: "\<exists>t\<in>set
     [JObj [(''id'', JInt 1), (''description'', JStr ''a'')],
      JObj [(''id'', JInt 2), (''description'', JStr ''b'')],
      JObj [(''id'', JInt 1), (''description'', JStr ''c'')]]. has_id t 1"
    by simp
  show ?thesis
    using delete_removes_id [OF ld int dicts ex, of "[]"] ld int dicts has
    by (simp add: save_tasks_def has_id_def sample_env_def show_nat.simps)
qed

text \<open>What an assignment to a key changes in a dictionary.\<close>

lemma subscript_set_item:
  "set_item t k v = Some t' \<Longrightarrow>
     subscript t' k' = (if k' = k then Some v else subscript t k')"
  by (cases t) (auto simp: update_conv')

text \<open>
  Claim C6. When the list holds dictionaries and one of them has the given id, the
  update command saves the list with one task replaced, the first that has the id. In
  the new task the description is the new one and \<open>updatedAt\<close> is the time of the run;
  every other key (\<open>id\<close>, \<open>status\<close>, \<open>createdAt\<close> among them) has the value it had.
  The other tasks of the list are the same, since the list is updated at one position.
\<close>

theorem update_changes_one_task:
  assumes "load_tasks E fs = Some (tasks, warned)"
    and "py_int E a = Some tid"
    and "list_all is_dict tasks"
    and "\<exists>t\<in>set tasks. has_id t tid"
  shows "\<exists>i t'.
     i < length tasks \<and> has_id (tasks ! i) tid \<and> (\<forall>j<i. \<not> has_id (tasks ! j) tid) \<and>
     cmd_update E clock (a # d # rest) fs =
       \<lparr>disk = save_tasks E (tasks[i := t']) fs,
        stdout = warned @ [''Task '' @ py_str E (JInt tid) @ '' updated successfully.''],
        crashed = False\<rparr> \<and>
     is_dict t' \<and>
     subscript t' ''description'' = Some (JStr d) \<and>
     subscript t' ''updatedAt'' = Some (JStr (now_iso clock)) \<and>
     (\<forall>k. k \<noteq> ''description'' \<and> k \<noteq> ''updatedAt'' \<longrightarrow>
        subscript t' k = subscript (tasks ! i) k)"
proof -
  from find_task_found [OF assms(3,4)] obtain i where i: "find_task tasks tid = Some (Some i)"
    by blast
  note found = find_task_Some [OF i]
  then have "is_dict (tasks ! i)" and truthy: "\<not> py_not (tasks ! i)"
    using has_id_dict by blast+
  then obtain dct where dct: "tasks ! i = JObj dct"
    by (cases "tasks ! i") simp_all
  define t1 where "t1 = JObj (AList.update ''description'' (JStr d) dct)"
  define t2 where
    "t2 = JObj (AList.update ''updatedAt'' (JStr (now_iso clock))
                 (AList.update ''description'' (JStr d) dct))"
  have s1: "set_item (tasks ! i) ''description'' (JStr d) = Some t1"
    by (simp add: dct t1_def)
  have s2: "set_item t1 ''updatedAt'' (JStr (now_iso clock)) = Some t2"
    by (simp add: t1_def t2_def)
  have run: "cmd_update E clock (a # d # rest) fs =
       \<lparr>disk = save_tasks E (tasks[i := t2]) fs,
        stdout = warned @ [''Task '' @ py_str E (JInt tid) @ '' updated successfully.''],
        crashed = False\<rparr>"
    using assms(1,2) i truthy s1 s2 by (simp add: cmd_update_def)
  have keys: "subscript t2 k =
      (if k = ''updatedAt'' then Some (JStr (now_iso clock))
       else if k = ''description'' then Some (JStr d) else subscript (tasks ! i) k)" for k
    using subscript_set_item [OF s2, of k] subscript_set_item [OF s1, of k] by simp
  have "is_dict t2"
    by (simp add: t2_def)
  with found run keys show ?thesis
    by (intro exI [of _ i] exI [of _ t2]) simp
qed

theorem update_changes_one_task_witness:
  "load_tasks sample_env
     \<lparr>tasks_file =
        Some (Document (JArr
          [JObj [(''id'', JInt 1), (''description'', JStr ''a''), (''status'', JStr ''todo''),
                 (''createdAt'', JStr ''t0Z''), (''updatedAt'', JStr ''t0Z'')],
           JObj [(''id'', JInt 2), (''description'', JStr ''b''), (''status'', JStr ''done''),
                 (''createdAt'', JStr ''t1Z''), (''updatedAt'', JStr ''t2Z'')]])),
      writes = 4\<rparr> =
     Some ([JObj [(''id'', JInt 1), (''description'', JStr ''a''), (''status'', JStr ''todo''),
             (''createdAt'', JStr ''t0Z''), (''updatedAt'', JStr ''t0Z'')],
       JObj [(''id'', JInt 2), (''description'', JStr ''b''), (''status'', JStr ''done''),
             (''createdAt'', JStr ''t1Z''), (''updatedAt'', JStr ''t2Z'')]], []) \<and>
   py_int sample_env ''2'' = Some 2 \<and>
   list_all is_dict
     [JObj [(''id'', JInt 1), (''description'', JStr ''a''), (''status'', JStr ''todo''),
            (''createdAt'', JStr ''t0Z''), (''updatedAt'', JStr ''t0Z'')],
      JObj [(''id'', JInt 2), (''description'', JStr ''b''), (''status'', JStr ''done''),
            (''createdAt'', JStr ''t1Z''), (''updatedAt'', JStr ''t2Z'')]] \<and>
   has_id (JObj [(''id'', JInt 2), (''description'', JStr ''b''), (''status'', JStr ''done''),
                 (''createdAt'', JStr ''t1Z''), (''updatedAt'', JStr ''t2Z'')]) 2 \<and>
   cmd_update sample_env ''t3'' [''2'', ''new text'']
     \<lparr>tasks_file =
        Some (Document (JArr
          [JObj [(''id'', JInt 1), (''description'', JStr ''a''), (''status'', JStr ''todo''),
                 (''createdAt'', JStr ''t0Z''), (''updatedAt'', JStr ''t0Z'')],
           JObj [(''id'', JInt 2), (''description'', JStr ''b''), (''status'', JStr ''done''),
                 (''createdAt'', JStr ''t1Z''), (''updatedAt'', JStr ''t2Z'')]])),
      writes = 4\<rparr> =
     \<lparr>disk =
        \<lparr>tasks_file =
           Some (Document (JArr
             [JObj [(''id'', JInt 1), (''description'', JStr ''a''), (''status'', JStr ''todo''),
                    (''createdAt'', JStr ''t0Z''), (''updatedAt'', JStr ''t0Z'')],
              JObj [(''id'', JInt 2), (''description'', JStr ''new text''),
                    (''status'', JStr ''done''), (''createdAt'', JStr ''t1Z''),
                    (''updatedAt'', JStr ''t3Z'')]])),
         writes = 5\<rparr>,
      stdout = [''Task 2 updated successfully.''], crashed = False\<rparr>"
proof -
  define t1 where "t1 = JObj [(''id'', JInt 1), (''description'', JStr ''a''),
    (''status'', JStr ''todo''), (''createdAt'', JStr ''t0Z''), (''updatedAt'', JStr ''t0Z'')]"
  define t2 where "t2 = JObj [(''id'', JInt 2), (''description'', JStr ''b''),
    (''status'', JStr ''done''), (''createdAt'', JStr ''t1Z''), (''updatedAt'', JStr ''t2Z'')]"
  define fs :: "sample_file files"
    where "fs = \<lparr>tasks_file = Some (Document (JArr [t1, t2])), writes = 4\<rparr>"
  have ld: "load_tasks sample_env fs = Some ([t1, t2], [])"
    by (simp add: load_tasks_def sample_env_def fs_def)
  have int: "py_int sample_env ''2'' = Some 2"
    by (simp add: sample_eval)
  have dicts: "list_all is_dict [t1, t2]"
    by (simp add: t1_def t2_def)
  have has: "has_id t2 2" and hasnt: "\<not> has_id t1 2"
    by (simp_all add: has_id_def t1_def t2_def)
  then have ex: "\<exists>t\<in>set [t1, t2]. has_id t 2"
    by simp
  have run: "cmd_update sample_env ''t3'' [''2'', ''new text''] fs =
     \<lparr>disk =
        \<lparr>tasks_file =
           Some (Document (JArr
             [t1, JObj [(''id'', JInt 2), (''description'', JStr ''new text''),
                    (''status'', JStr ''done''), (''createdAt'', JStr ''t1Z''),
                    (''updatedAt'', JStr ''t3Z'')]])),
         writes = 5\<rparr>,
      stdout = [''Task 2 updated successfully.''], crashed = False\<rparr>"
    by (simp add: cmd_update_def load_tasks_def dec_int_def digit_of_def has_id_def t1_def
        t2_def fs_def save_tasks_def now_iso_def sample_env_def show_nat.simps)
  from update_changes_one_task [OF ld int dicts ex, of "''t3''" "''new text''" "[]"]
    ld int dicts has run
  show ?thesis
    unfolding t1_def t2_def fs_def by (elim exE conjE) (intro conjI; assumption)
qed

subsection \<open>Listing\<close>

lemma has_fields_fmt: "has_fields t \<Longrightarrow> \<exists>line. fmt E t = Some line"
  by (auto simp: has_fields_def fmt_def)

lemma has_fields_dict: "has_fields t \<Longrightarrow> is_dict t"
  by (cases t) (simp_all add: has_fields_def)

lemma print_tasks_lines:
  "list_all has_fields ts \<Longrightarrow>
     \<exists>lines. those (map (fmt E) ts) = Some lines \<and> print_tasks E ts = (lines, False)"
proof (induction ts)
  case Nil
  then show ?case by simp
next
  case (Cons t ts)
  from Cons.prems obtain line where "fmt E t = Some line"
    using has_fields_fmt by auto
  moreover from Cons obtain lines
    where "those (map (fmt E) ts) = Some lines" "print_tasks E ts = (lines, False)"
    by auto
  ultimately show ?case by simp
qed

lemma matching_with_status:
  "list_all is_dict tasks \<Longrightarrow>
     (case flt of None \<Rightarrow> Some tasks | Some st \<Rightarrow> with_status tasks st) =
     Some (matching flt tasks)"
  by (simp add: matching_def with_status_filter split: option.splits)

lemma matching_has_fields: "list_all has_fields tasks \<Longrightarrow> list_all has_fields (matching flt tasks)"
  by (auto simp: matching_def list_all_iff split: option.splits)

text \<open>
  Claim C9. When every task has the five keys a line shows, the list command prints
  one line for each task the filter lets through, in the order of the list, and does
  not crash. When the list is empty it prints \<open>No tasks found.\<close>; when the list is not
  empty and the filter lets no task through it prints \<open>No tasks match the filter.\<close>. In
  all three cases the files are unchanged.
\<close>

theorem list_prints_matching:
  assumes "load_tasks E fs = Some (tasks, warned)"
    and "status_filter E args = Some flt"
    and "list_all has_fields tasks"
  shows "\<exists>lines.
     those (map (fmt E) (matching flt tasks)) = Some lines \<and>
     length lines = length (matching flt tasks) \<and>
     cmd_list E args fs =
       \<lparr>disk = fs,
        stdout = warned @
          (if tasks = [] then [''No tasks found.'']
           else if matching flt tasks = [] then [''No tasks match the filter.'']
           else lines),
        crashed = False\<rparr>"
proof -
  from assms(3) have dicts: "list_all is_dict tasks"
    using has_fields_dict by (auto simp: list_all_iff)
  from print_tasks_lines [OF matching_has_fields [OF assms(3)]] obtain lines
    where lines: "those (map (fmt E) (matching flt tasks)) = Some lines"
      and prints: "print_tasks E (matching flt tasks) = (lines, False)"
    by blast
  from lines have len: "length lines = length (matching flt tasks)"
    by (simp add: those_eq_Some_length)
  have "cmd_list E args fs =
       \<lparr>disk = fs,
        stdout = warned @
          (if tasks = [] then [''No tasks found.'']
           else if matching flt tasks = [] then [''No tasks match the filter.'']
           else lines),
        crashed = False\<rparr>"
    using assms(1,2) prints matching_with_status [OF dicts, of flt]
    by (simp add: cmd_list_def)
  with lines len show ?thesis by blast
qed

theorem list_prints_matching_witness:
  "(load_tasks sample_env no_file = Some ([], []) \<and> status_filter sample_env [] = Some None \<and>
    list_all has_fields [] \<and>
    cmd_list sample_env [] no_file =
      \<lparr>disk = no_file, stdout = [''No tasks found.''], crashed = False\<rparr>) \<and>
   (load_tasks sample_env
      \<lparr>tasks_file =
         Some (Document (JArr
           [JObj [(''id'', JInt 1), (''description'', JStr ''a''), (''status'', JStr ''done''),
                  (''createdAt'', JStr ''t0Z''), (''updatedAt'', JStr ''t1Z'')],
            JObj [(''id'', JInt 2), (''description'', JStr ''b''), (''status'', JStr ''todo''),
                  (''createdAt'', JStr ''t2Z''), (''updatedAt'', JStr ''t2Z'')],
            JObj [(''id'', JInt 3), (''description'', JStr ''c''), (''status'', JStr ''done''),
                  (''createdAt'', JStr ''t3Z''), (''updatedAt'', JStr ''t4Z'')]])),
       writes = 5\<rparr> =
      Some ([JObj [(''id'', JInt 1), (''description'', JStr ''a''), (''status'', JStr ''done''),
              (''createdAt'', JStr ''t0Z''), (''updatedAt'', JStr ''t1Z'')],
        JObj [(''id'', JInt 2), (''description'', JStr ''b''), (''status'', JStr ''todo''),
              (''createdAt'', JStr ''t2Z''), (''updatedAt'', JStr ''t2Z'')],
        JObj [(''id'', JInt 3), (''description'', JStr ''c''), (''status'', JStr ''done''),
              (''createdAt'', JStr ''t3Z''), (''updatedAt'', JStr ''t4Z'')]], []) \<and>
    status_filter sample_env [''Done''] = Some (Some ''done'') \<and>
    status_filter sample_env [''inprogress''] = Some (Some ''in-progress'') \<and>
    list_all has_fields
      [JObj [(''id'', JInt 1), (''description'', JStr ''a''), (''status'', JStr ''done''),
             (''createdAt'', JStr ''t0Z''), (''updatedAt'', JStr ''t1Z'')],
       JObj [(''id'', JInt 2), (''description'', JStr ''b''), (''status'', JStr ''todo''),
             (''createdAt'', JStr ''t2Z''), (''updatedAt'', JStr ''t2Z'')],
       JObj [(''id'', JInt 3), (''description'', JStr ''c''), (''status'', JStr ''done''),
             (''createdAt'', JStr ''t3Z''), (''updatedAt'', JStr ''t4Z'')]] \<and>
    cmd_list sample_env [''Done'']
      \<lparr>tasks_file =
         Some (Document (JArr
           [JObj [(''id'', JInt 1), (''description'', JStr ''a''), (''status'', JStr ''done''),
                  (''createdAt'', JStr ''t0Z''), (''updatedAt'', JStr ''t1Z'')],
            JObj [(''id'', JInt 2), (''description'', JStr ''b''), (''status'', JStr ''todo''),
                  (''createdAt'', JStr ''t2Z''), (''updatedAt'', JStr ''t2Z'')],
            JObj [(''id'', JInt 3), (''description'', JStr ''c''), (''status'', JStr ''done''),
                  (''createdAt'', JStr ''t3Z''), (''updatedAt'', JStr ''t4Z'')]])),
       writes = 5\<rparr> =
      \<lparr>disk =
         \<lparr>tasks_file =
            Some (Document (JArr
              [JObj [(''id'', JInt 1), (''description'', JStr ''a''), (''status'', JStr ''done''),
                     (''createdAt'', JStr ''t0Z''), (''updatedAt'', JStr ''t1Z'')],
               JObj [(''id'', JInt 2), (''description'', JStr ''b''), (''status'', JStr ''todo''),
                     (''createdAt'', JStr ''t2Z''), (''updatedAt'', JStr ''t2Z'')],
               JObj [(''id'', JInt 3), (''description'', JStr ''c''), (''status'', JStr ''done''),
                     (''createdAt'', JStr ''t3Z''), (''updatedAt'', JStr ''t4Z'')]])),
          writes = 5\<rparr>,
       stdout = [''[1] (done) a  - created: t0Z updated: t1Z'',
                 ''[3] (done) c  - created: t3Z updated: t4Z''],
       crashed = False\<rparr> \<and>
    stdout (cmd_list sample_env [''inprogress'']
      \<lparr>tasks_file =
         Some (Document (JArr
           [JObj [(''id'', JInt 1), (''description'', JStr ''a''), (''status'', JStr ''done''),
                  (''createdAt'', JStr ''t0Z''), (''updatedAt'', JStr ''t1Z'')],
            JObj [(''id'', JInt 2), (''description'', JStr ''b''), (''status'', JStr ''todo''),
                  (''createdAt'', JStr ''t2Z''), (''updatedAt'', JStr ''t2Z'')],
            JObj [(''id'', JInt 3), (''description'', JStr ''c''), (''status'', JStr ''done''),
                  (''createdAt'', JStr ''t3Z''), (''updatedAt'', JStr ''t4Z'')]])),
       writes = 5\<rparr>) = [''No tasks match the filter.''])"
proof -
  define t1 where "t1 = JObj [(''id'', JInt 1), (''description'', JStr ''a''),
    (''status'', JStr ''done''), (''createdAt'', JStr ''t0Z''), (''updatedAt'', JStr ''t1Z'')]"
  define t2 where "t2 = JObj [(''id'', JInt 2), (''description'', JStr ''b''),
    (''status'', JStr ''todo''), (''createdAt'', JStr ''t2Z''), (''updatedAt'', JStr ''t2Z'')]"
  define t3 where "t3 = JObj [(''id'', JInt 3), (''description'', JStr ''c''),
    (''status'', JStr ''done''), (''createdAt'', JStr ''t3Z''), (''updatedAt'', JStr ''t4Z'')]"
  define fs :: "sample_file files"
    where "fs = \<lparr>tasks_file = Some (Document (JArr [t1, t2, t3])), writes = 5\<rparr>"
  have ld0: "load_tasks sample_env no_file = Some ([], [])"
    by (simp add: load_tasks_def no_file_def)
  have f0: "status_filter sample_env [] = Some None"
    by (simp add: status_filter_def)
  have w0: "list_all has_fields []"
    by simp
  have ld: "load_tasks sample_env fs = Some ([t1, t2, t3], [])"
    by (simp add: load_tasks_def sample_env_def fs_def)
  have f1: "status_filter sample_env [''Done''] = Some (Some ''done'')"
    and f2: "status_filter sample_env [''inprogress''] = Some (Some ''in-progress'')"
    by (simp_all add: status_filter_def lower_eval)
  have wf: "list_all has_fields [t1, t2, t3]"
    by (simp add: has_fields_def t1_def t2_def t3_def)
  have m1: "matching (Some ''done'') [t1, t2, t3] = [t1, t3]"
    and m2: "matching (Some ''in-progress'') [t1, t2, t3] = []"
    by (simp_all add: matching_def has_status_def t1_def t2_def t3_def)
  have lines: "fmt sample_env t1 = Some ''[1] (done) a  - created: t0Z updated: t1Z''"
    "fmt sample_env t3 = Some ''[3] (done) c  - created: t3Z updated: t4Z''"
    by (simp_all add: fmt_def t1_def t3_def sample_env_def show_nat.simps)
  have r0: "cmd_list sample_env [] no_file =
      \<lparr>disk = no_file, stdout = [''No tasks found.''], crashed = False\<rparr>"
    using list_prints_matching [OF ld0 f0 w0] by auto
  have r1: "cmd_list sample_env [''Done''] fs =
      \<lparr>disk = fs,
       stdout = [''[1] (done) a  - created: t0Z updated: t1Z'',
                 ''[3] (done) c  - created: t3Z updated: t4Z''],
       crashed = False\<rparr>"
    using list_prints_matching [OF ld f1 wf] by (auto simp: m1 lines)
  have r2: "stdout (cmd_list sample_env [''inprogress''] fs) = [''No tasks match the filter.'']"
    using list_prints_matching [OF ld f2 wf] by (auto simp: m2)
  from ld0 f0 w0 r0 ld f1 f2 wf r1 r2 show ?thesis
    unfolding t1_def t2_def t3_def fs_def by - (intro conjI; assumption)
qed

subsection \<open>What a run writes\<close>

















subsection \<open>The ids along a session\<close>























end
